theory Spec2Isabelle
  imports Main "HOL-Library.List_Lexorder" "HOL-Library.Char_ord" "HOL-Library.Multiset"
begin

section \<open>Text cleaning of \<open>run_task\<close> (build_dataset.py, lines 96 to 101)\<close>

text \<open>
  Texts are Python \<open>str\<close> values; a \<open>char\<close> stands for one code point below 256.
  \<open>is_space\<close> is the class \<open>\s\<close> of \<open>re\<close> on \<open>str\<close> patterns, which is also what
  \<open>str.strip()\<close> removes: the code points 9 to 13, 28 to 32, 133 and 160.
\<close>

definition is_space :: "char \<Rightarrow> bool" where
  "is_space c \<longleftrightarrow> c \<in> set [CHR 0x09, CHR 0x0A, CHR 0x0B, CHR 0x0C, CHR 0x0D,
     CHR 0x1C, CHR 0x1D, CHR 0x1E, CHR 0x1F, CHR 0x20, CHR 0x85, CHR 0xA0]"

definition newline :: char where
  "newline = CHR 0x0A"

text \<open>\<open>text.strip()\<close>: drop leading and trailing whitespace.\<close>

definition strip :: "string \<Rightarrow> string" where
  "strip s = rev (dropWhile is_space (rev (dropWhile is_space s)))"

text \<open>
  \<open>find_close c s\<close> runs the lazy \<open>.*?\<close> followed by the closing bracket \<open>c\<close> over \<open>s\<close>,
  the text after an opening bracket: it gives the text after the first \<open>c\<close>, when no
  newline comes before it (\<open>.\<close> does not match a newline), and \<open>None\<close> when the
  pattern does not match there.
\<close>

fun find_close :: "char \<Rightarrow> string \<Rightarrow> string option" where
  "find_close c [] = None"
| "find_close c (x # xs) =
     (if x = c then Some xs else if x = newline then None else find_close c xs)"

lemma find_close_length: "find_close c s = Some r \<Longrightarrow> length r < Suc (length s)"
  by (induction s) (auto split: if_splits)

text \<open>
  \<open>re.sub(open .*? close, " ", text)\<close>: leftmost matches, left to right, each replaced by
  one space; a character where no match starts is copied.
\<close>

function re_sub_span :: "char \<Rightarrow> char \<Rightarrow> string \<Rightarrow> string" where
  "re_sub_span ob cb [] = []"
| "re_sub_span ob cb (x # xs) =
     (if x = ob then
        (case find_close cb xs of
           Some rest \<Rightarrow> CHR '' '' # re_sub_span ob cb rest
         | None \<Rightarrow> x # re_sub_span ob cb xs)
      else x # re_sub_span ob cb xs)"
  by pat_completeness auto
termination
  by (relation "measure (\<lambda>(ob, cb, s). length s)") (auto dest: find_close_length)

text \<open>\<open>re.sub(r"\s+", " ", text)\<close>: every maximal run of whitespace becomes one space.\<close>

function collapse_ws :: "string \<Rightarrow> string" where
  "collapse_ws [] = []"
| "collapse_ws (x # xs) =
     (if is_space x then CHR '' '' # collapse_ws (dropWhile is_space xs)
      else x # collapse_ws xs)"
  by pat_completeness auto
termination
  by (relation "measure length") (auto intro: le_imp_less_Suc length_dropWhile_le)

text \<open>Lines 99 and 100: the two bracket substitutions, braces first.\<close>

definition remove_spans :: "string \<Rightarrow> string" where
  "remove_spans t = re_sub_span (CHR ''<'') (CHR ''>'') (re_sub_span (CHR ''{'') (CHR ''}'') t)"

text \<open>Lines 99 to 101: the three substitutions, in this order. Nothing is trimmed after them.\<close>

definition sanitize :: "string \<Rightarrow> string" where
  "sanitize t = collapse_ws (remove_spans t)"



section \<open>Errors and Python list indexing\<close>

text \<open>
  The exceptions the program can meet. \<open>OtherError\<close> stands for any exception raised by an
  external collaborator (the phonemizer, the array loader, the file system).
\<close>

datatype error = IndexError | NameError string | TypeError | ValueError | OtherError string

text \<open>\<open>xs[i]\<close>: a negative index counts from the end; out of range raises \<open>IndexError\<close>.\<close>

definition py_index :: "'a list \<Rightarrow> int \<Rightarrow> error + 'a" where
  "py_index xs i =
     (if 0 \<le> i \<and> i < int (length xs) then Inr (xs ! nat i)
      else if i < 0 \<and> - int (length xs) \<le> i then Inr (xs ! nat (int (length xs) + i))
      else Inl IndexError)"

text \<open>\<open>sep.join(xs)\<close>.\<close>

fun str_join :: "string \<Rightarrow> string list \<Rightarrow> string" where
  "str_join sep [] = []"
| "str_join sep [x] = x"
| "str_join sep (x # y # ys) = x @ sep @ str_join sep (y # ys)"

section \<open>Paths (\<open>pathlib.Path\<close>)\<close>

text \<open>
  A path is the list of its parts; an absolute path starts with the part \<open>/\<close>. Paths are
  ordered as \<open>pathlib\<close> orders them: lexicographically on the list of parts, each part
  compared as a string.
\<close>

type_synonym path = "string list"

definition anchored :: "path \<Rightarrow> bool" where
  "anchored p \<longleftrightarrow> p \<noteq> [] \<and> hd p = ''/''"

text \<open>\<open>p.name\<close>: the last part, empty for the root and for the empty relative path.\<close>

definition path_name :: "path \<Rightarrow> string" where
  "path_name p = (if length p = (if anchored p then 1 else 0) then [] else last p)"

text \<open>\<open>p.parent\<close>: the path without its last part; the root is its own parent.\<close>

definition path_parent :: "path \<Rightarrow> path" where
  "path_parent p = (if anchored p \<and> length p = 1 then p else butlast p)"

section \<open>Tree mode: \<open>task_generator_yaml\<close>\<close>

text \<open>
  A member of a group is a path (tree mode) or a tuple of path, text and language tags
  (manifest mode); \<open>run_task\<close> tells them apart with \<open>isinstance(file, tuple)\<close>.
\<close>

datatype member = TreeFile path | ManifestEntry path string "string list"

text \<open>The tuple both generators yield: name, subset, source, languages, extension.\<close>

record task =
  task_name :: string
  subset :: "member list"
  task_source :: string
  task_languages :: "string list"
  task_extension :: "string option"

text \<open>\<open>group_parent_level\<close> of a dataset: an integer or a list of integers.\<close>

datatype parent_level = LevelInt int | LevelList "int list"

text \<open>One entry of \<open>config["datasets"]\<close>.\<close>

record dataset =
  ds_root :: string
  ds_source :: string
  ds_languages :: "string list"
  ds_extension :: "string option"
  group_parent_level :: parent_level

text \<open>Lines 35 and 36: an integer becomes the one-element list.\<close>

definition levels_of :: "parent_level \<Rightarrow> int list" where
  "levels_of pl = (case pl of LevelInt n \<Rightarrow> [n] | LevelList ls \<Rightarrow> ls)"

lemma path_parent_shorter:
  "path_name (path_parent p) \<noteq> [] \<Longrightarrow> length (path_parent p) < length p"
  by (cases p rule: rev_cases) (auto simp: path_name_def path_parent_def anchored_def split: if_splits)

text \<open>Lines 44 to 48: the names of the ancestor directories, nearest first.\<close>

function all_parents_loop :: "path \<Rightarrow> string list \<Rightarrow> string list" where
  "all_parents_loop pointer all_parents =
     (if path_name (path_parent pointer) \<noteq> []
      then all_parents_loop (path_parent pointer) (all_parents @ [path_name (path_parent pointer)])
      else all_parents)"
  by pat_completeness auto
termination
  by (relation "measure (\<lambda>(pointer, all_parents). length pointer)")
    (auto dest: path_parent_shorter)

declare all_parents_loop.simps [simp del]

definition all_parents :: "path \<Rightarrow> string list" where
  "all_parents file = all_parents_loop file []"

text \<open>Lines 50 to 52: the ancestors at the configured levels; the first bad index raises.\<close>

fun select_parents :: "int list \<Rightarrow> string list \<Rightarrow> error + string list" where
  "select_parents [] ap = Inr []"
| "select_parents (level # levels) ap =
     (case py_index ap (level - 1) of
        Inl e \<Rightarrow> Inl e
      | Inr x \<Rightarrow> (case select_parents levels ap of Inl e \<Rightarrow> Inl e | Inr xs \<Rightarrow> Inr (x # xs)))"

text \<open>Lines 44 to 54 for one file: its group key.\<close>

definition group_key :: "int list \<Rightarrow> path \<Rightarrow> error + string" where
  "group_key levels file =
     (case select_parents levels (all_parents file) of
        Inl e \<Rightarrow> Inl e
      | Inr ps \<Rightarrow> Inr (str_join ''-'' ps))"

text \<open>
  \<open>grouped_files[p].append(file)\<close> on a \<open>defaultdict(list)\<close>: a dictionary keeps its keys
  in the order of their first insertion.
\<close>

fun grouped_append :: "(string \<times> 'a list) list \<Rightarrow> string \<Rightarrow> 'a \<Rightarrow> (string \<times> 'a list) list" where
  "grouped_append [] k v = [(k, [v])]"
| "grouped_append ((k', vs) # g) k v =
     (if k' = k then (k', vs @ [v]) # g else (k', vs) # grouped_append g k v)"

text \<open>Lines 43 to 55: the grouping loop over the sorted files.\<close>

fun group_files :: "int list \<Rightarrow> path list \<Rightarrow> (string \<times> path list) list \<Rightarrow> error + (string \<times> path list) list" where
  "group_files levels [] grouped = Inr grouped"
| "group_files levels (file # files) grouped =
     (case group_key levels file of
        Inl e \<Rightarrow> Inl e
      | Inr p \<Rightarrow> group_files levels files (grouped_append grouped p file))"

definition mk_task :: "dataset \<Rightarrow> string \<times> path list \<Rightarrow> task" where
  "mk_task row g =
     \<lparr>task_name = fst g, subset = map TreeFile (snd g), task_source = ds_source row,
      task_languages = ds_languages row, task_extension = ds_extension row\<rparr>"

text \<open>
  The body of the loop over the datasets, lines 27 to 59. \<open>rglob root\<close> is what
  \<open>Path(root).rglob("*.npy")\<close> enumerates, in the order the file system gives.
\<close>

definition dataset_tasks :: "(string \<Rightarrow> path list) \<Rightarrow> dataset \<Rightarrow> error + task list" where
  "dataset_tasks rglob row =
     (case group_files (levels_of (group_parent_level row)) (sort (rglob (ds_root row))) [] of
        Inl e \<Rightarrow> Inl e
      | Inr grouped \<Rightarrow> Inr (map (mk_task row) grouped))"

text \<open>
  The generator: the tasks it yields, in order, and the exception that ends it, if any.
  The groups of a dataset are yielded once all its files are grouped; the next dataset
  is read only after they have all been consumed.
\<close>

fun task_generator_yaml :: "(string \<Rightarrow> path list) \<Rightarrow> dataset list \<Rightarrow> task list \<times> error option" where
  "task_generator_yaml rglob [] = ([], None)"
| "task_generator_yaml rglob (row # rows) =
     (case dataset_tasks rglob row of
        Inl e \<Rightarrow> ([], Some e)
      | Inr ts \<Rightarrow> (ts @ fst (task_generator_yaml rglob rows), snd (task_generator_yaml rglob rows)))"

text \<open>The members stored under a key of the grouping dictionary, empty for a new key.\<close>

definition lookup_group :: "(string \<times> 'a list) list \<Rightarrow> string \<Rightarrow> 'a list" where
  "lookup_group g k = (case map_of g k of None \<Rightarrow> [] | Some vs \<Rightarrow> vs)"

text \<open>The ancestor directory names of a path read off its parts, nearest first.\<close>

definition ancestors :: "path \<Rightarrow> string list" where
  "ancestors p = rev (butlast (if anchored p then tl p else p))"

section \<open>Manifest mode: \<open>task_generator_filelist\<close>\<close>

text \<open>
  \<open>load_filelist\<close> is not among the sources; its result is taken as given: a list of rows
  (filename, speaker, languages, text).
\<close>

type_synonym filelist_row = "path \<times> string \<times> string list \<times> string"

text \<open>Lines 63 to 65: group the rows by speaker.\<close>

fun group_rows :: "filelist_row list \<Rightarrow> (string \<times> member list) list \<Rightarrow> (string \<times> member list) list" where
  "group_rows [] grouped = grouped"
| "group_rows ((filename, speaker, languages, txt) # rows) grouped =
     group_rows rows (grouped_append grouped speaker (ManifestEntry filename txt languages))"

text \<open>
  Lines 68 and 69. \<open>languages\<close> in the yielded tuple is the loop variable of line 64 after
  the loop has ended: the language tags of the last row of the manifest. With no row
  there is no group, and the variable is never read.
\<close>

definition last_languages :: "filelist_row list \<Rightarrow> string list" where
  "last_languages rows = fst (snd (snd (last rows)))"

definition task_generator_filelist :: "filelist_row list \<Rightarrow> task list" where
  "task_generator_filelist rows =
     map (\<lambda>g. \<lparr>task_name = fst g, subset = snd g, task_source = ''filelist'',
                 task_languages = last_languages rows, task_extension = None\<rparr>)
       (group_rows rows [])"

section \<open>\<open>run_task\<close>\<close>

text \<open>
  \<open>p.suffix\<close> of the name of a path: the text from the last dot on, when that dot is
  neither the first nor the last character of the name.
\<close>

definition name_suffix :: "string \<Rightarrow> string" where
  "name_suffix nm =
     (let ext = rev (takeWhile (\<lambda>c. c \<noteq> CHR ''.'') (rev nm))
      in if CHR ''.'' \<in> set nm \<and> ext \<noteq> [] \<and> Suc (length ext) < length nm
         then CHR ''.'' # ext else [])"

text \<open>
  \<open>p.with_suffix(suffix)\<close>: \<open>ValueError\<close> for a suffix with a separator, for a non-empty
  suffix that does not start with a dot, for the suffix \<open>.\<close> and for a path with an empty
  name.
\<close>

definition with_suffix :: "path \<Rightarrow> string \<Rightarrow> error + path" where
  "with_suffix p suffix =
     (if CHR ''/'' \<in> set suffix then Inl ValueError
      else if (suffix \<noteq> [] \<and> hd suffix \<noteq> CHR ''.'') \<or> suffix = ''.'' then Inl ValueError
      else if path_name p = [] then Inl ValueError
      else Inr (butlast p @
        [take (length (path_name p) - length (name_suffix (path_name p))) (path_name p) @ suffix]))"

text \<open>
  A Python value as far as \<open>run_task\<close> looks into it: an integer or a list. What
  \<open>np.load\<close> returns is an \<open>ndarray\<close>, given by the value of its \<open>tolist()\<close> (a scalar for
  an array of dimension 0), or another object.
\<close>

datatype pyval = PyInt int | PyList "pyval list"

datatype loaded = NdArray pyval | OtherObject pyval

text \<open>The messages \<open>Sentence\<close> and \<open>TextData\<close>, with the fields the specification lists.\<close>

record sentence =
  sentence_text :: string
  phones :: "string list"
  semantics :: "int list list"

record text_data =
  td_source :: string
  td_name :: string
  td_languages :: "string list"
  td_sentences :: "sentence list"

text \<open>
  The collaborators of \<open>run_task\<close> and of \<open>main\<close>: the file system (\<open>exists\<close>, \<open>open\<close> and
  \<open>read\<close>, \<open>rglob\<close>), the phonemizer \<open>g2p\<close>, \<open>np.load\<close>, the protobuf serializer, the
  YAML loader and \<open>load_filelist\<close>. Each call that can raise returns a sum.
\<close>

record env =
  file_exists :: "path \<Rightarrow> bool"
  read_text :: "path \<Rightarrow> error + string"
  g2p :: "string \<Rightarrow> string list \<Rightarrow> error + (string \<times> string) list"
  np_load :: "path \<Rightarrow> error + loaded"
  serialize_to_string :: "text_data \<Rightarrow> nat list"
  env_rglob :: "string \<Rightarrow> path list"
  yaml_load :: "string \<Rightarrow> error + dataset list"
  load_filelist :: "string \<Rightarrow> error + filelist_row list"

text \<open>
  Modelled from the spec: the protobuf class \<open>Semantics\<close> (text_data_pb2) is not among the
  sources; the specification gives \<open>Semantics{ values: [int] }\<close>. \<open>Semantics(values=s)\<close>
  takes a list of integers; anything else is a \<open>TypeError\<close>.
\<close>

fun is_int :: "pyval \<Rightarrow> bool" where
  "is_int (PyInt n) = True"
| "is_int (PyList vs) = False"

fun int_of :: "pyval \<Rightarrow> int" where
  "int_of (PyInt n) = n"
| "int_of (PyList vs) = 0"

definition mk_Semantics :: "pyval \<Rightarrow> error + int list" where
  "mk_Semantics s =
     (case s of
        PyInt n \<Rightarrow> Inl TypeError
      | PyList vs \<Rightarrow> if list_all is_int vs then Inr (map int_of vs) else Inl TypeError)"

text \<open>The comprehension of line 117 over a list of rows: the first failing row raises.\<close>

fun all_Semantics :: "pyval list \<Rightarrow> error + int list list" where
  "all_Semantics [] = Inr []"
| "all_Semantics (s # ss) =
     (case mk_Semantics s of
        Inl e \<Rightarrow> Inl e
      | Inr v \<Rightarrow> (case all_Semantics ss of Inl e \<Rightarrow> Inl e | Inr vs \<Rightarrow> Inr (v # vs)))"

text \<open>
  Lines 110 to 117: an \<open>ndarray\<close> is replaced by its \<open>tolist()\<close>; iterating over a value
  that is not a list is a \<open>TypeError\<close>.
\<close>

definition semantics_of :: "loaded \<Rightarrow> error + int list list" where
  "semantics_of l =
     (case (case l of NdArray v \<Rightarrow> v | OtherObject v \<Rightarrow> v) of
        PyInt n \<Rightarrow> Inl TypeError
      | PyList rows \<Rightarrow> all_Semantics rows)"

text \<open>Lines 78 to 81: the parts of a member; line 79 rebinds \<open>languages\<close>.\<close>

fun member_file :: "member \<Rightarrow> path" where
  "member_file (TreeFile f) = f"
| "member_file (ManifestEntry f t l) = f"

fun member_text :: "member \<Rightarrow> string option" where
  "member_text (TreeFile f) = None"
| "member_text (ManifestEntry f t l) = Some t"

fun rebind_languages :: "string list \<Rightarrow> member \<Rightarrow> string list" where
  "rebind_languages languages (TreeFile f) = languages"
| "rebind_languages languages (ManifestEntry f t l) = l"

text \<open>
  Lines 88 to 96: the text of the member, \<open>None\<close> when the sidecar file is missing.
  \<open>with_suffix(None)\<close> is a \<open>TypeError\<close>; reading the sidecar file can raise.
\<close>

definition resolve_text :: "env \<Rightarrow> string option \<Rightarrow> path \<Rightarrow> string option \<Rightarrow> error + string option" where
  "resolve_text e extension f txt =
     (case txt of
        Some t \<Rightarrow> Inr (Some t)
      | None \<Rightarrow>
         (case extension of
            None \<Rightarrow> Inl TypeError
          | Some ext \<Rightarrow>
             (case with_suffix f ext of
                Inl err \<Rightarrow> Inl err
              | Inr txt_file \<Rightarrow>
                  if \<not> file_exists e txt_file then Inr None
                  else (case read_text e txt_file of
                          Inl err \<Rightarrow> Inl err
                        | Inr raw \<Rightarrow> Inr (Some (strip raw))))))"

text \<open>
  Lines 98 to 119, for a member whose feature file exists and whose text is \<open>t\<close>: the
  cleaning, then the phonemizer and the array loader inside the \<open>try\<close> (any exception
  there skips the member), then the sentence. The conversion of the loaded array is
  outside the \<open>try\<close>.
\<close>

definition build_sentence :: "env \<Rightarrow> string list \<Rightarrow> path \<Rightarrow> string \<Rightarrow> error + sentence option" where
  "build_sentence e languages np_file t =
     (case g2p e (sanitize t) languages of
        Inl err \<Rightarrow> Inr None
      | Inr pairs \<Rightarrow>
         (case np_load e np_file of
            Inl err \<Rightarrow> Inr None
          | Inr l \<Rightarrow>
             (case semantics_of l of
                Inl err \<Rightarrow> Inl err
              | Inr sem \<Rightarrow>
                  Inr (Some \<lparr>sentence_text = sanitize t, phones = map snd pairs, semantics = sem\<rparr>))))"

text \<open>
  The body of the loop of line 77 for one member, with \<open>languages\<close> as line 79 left it:
  \<open>Inr None\<close> is a \<open>continue\<close> (the member is skipped), \<open>Inl\<close> an exception that leaves
  \<open>run_task\<close>.
\<close>

definition loop_body :: "env \<Rightarrow> string option \<Rightarrow> string list \<Rightarrow> member \<Rightarrow> error + sentence option" where
  "loop_body e extension languages m =
     (case with_suffix (member_file m) ''.npy'' of
        Inl err \<Rightarrow> Inl err
      | Inr np_file \<Rightarrow>
          if \<not> file_exists e np_file then Inr None
          else (case resolve_text e extension (member_file m) (member_text m) of
                  Inl err \<Rightarrow> Inl err
                | Inr None \<Rightarrow> Inr None
                | Inr (Some t) \<Rightarrow> build_sentence e languages np_file t))"

text \<open>The loop of lines 76 to 119, threading \<open>languages\<close> and \<open>sentences\<close>.\<close>

fun run_members :: "env \<Rightarrow> string option \<Rightarrow> member list \<Rightarrow> string list \<Rightarrow> sentence list \<Rightarrow>
    error + string list \<times> sentence list" where
  "run_members e extension [] languages sentences = Inr (languages, sentences)"
| "run_members e extension (m # ms) languages sentences =
     (case loop_body e extension (rebind_languages languages m) m of
        Inl err \<Rightarrow> Inl err
      | Inr None \<Rightarrow> run_members e extension ms (rebind_languages languages m) sentences
      | Inr (Some s) \<Rightarrow>
          run_members e extension ms (rebind_languages languages m) (sentences @ [s]))"

text \<open>The \<open>TextData\<close> message of lines 123 to 128.\<close>

definition run_task_data :: "env \<Rightarrow> task \<Rightarrow> error + text_data" where
  "run_task_data e t =
     (case run_members e (task_extension t) (subset t) (task_languages t) [] of
        Inl err \<Rightarrow> Inl err
      | Inr (languages, sentences) \<Rightarrow>
          Inr \<lparr>td_source = task_source t, td_name = task_name t, td_languages = languages,
               td_sentences = sentences\<rparr>)"

text \<open>
  Modelled from the spec: \<open>pack_pb_stream\<close> (text_data_stream) is not among the sources.
  A frame is the length of the serialized record as four little-endian bytes, then the
  serialized record.
\<close>

definition le32 :: "nat \<Rightarrow> nat list" where
  "le32 n = [n mod 256, n div 256 mod 256, n div 65536 mod 256, n div 16777216 mod 256]"

definition pack_pb_stream :: "env \<Rightarrow> text_data \<Rightarrow> nat list" where
  "pack_pb_stream e d =
     le32 (length (serialize_to_string e d)) @ serialize_to_string e d"

text \<open>\<open>run_task\<close>: the frame of the record, or the exception.\<close>

definition run_task :: "env \<Rightarrow> task \<Rightarrow> error + nat list" where
  "run_task e t = (case run_task_data e t of Inl err \<Rightarrow> Inl err | Inr d \<Rightarrow> Inr (pack_pb_stream e d))"

text \<open>
  The languages bound at each member of a subset, and the outcome of the loop body for
  each member.
\<close>

fun bindings :: "string list \<Rightarrow> member list \<Rightarrow> string list list" where
  "bindings languages [] = []"
| "bindings languages (m # ms) = rebind_languages languages m # bindings (rebind_languages languages m) ms"

definition outcomes :: "env \<Rightarrow> task \<Rightarrow> (error + sentence option) list" where
  "outcomes e t =
     map (\<lambda>(l, m). loop_body e (task_extension t) l m) (zip (bindings (task_languages t) (subset t)) (subset t))"

definition added :: "(error + sentence option) list \<Rightarrow> sentence list" where
  "added os = concat (map (\<lambda>x. case x of Inr (Some s) \<Rightarrow> [s] | _ \<Rightarrow> []) os)"

section \<open>\<open>main\<close> and the module level\<close>

text \<open>What the command line gives for each option, \<open>None\<close> for an option left out.\<close>

record cli =
  opt_config :: "string option"
  opt_output :: "string option"
  opt_filelist :: "string option"
  opt_num_workers :: "int option"

definition default_config :: string where
  "default_config = ''fish_speech/configs/data/finetune.yaml''"

text \<open>
  Lines 141 to 145, after \<open>click\<close> has filled in the defaults: the tasks the chosen
  generator yields and the exception that ends it, if any.
\<close>

definition generator_fn :: "env \<Rightarrow> cli \<Rightarrow> task list \<times> error option" where
  "generator_fn e args =
     (case opt_filelist args of
        None \<Rightarrow>
          (case yaml_load e (case opt_config args of None \<Rightarrow> default_config | Some c \<Rightarrow> c) of
             Inl err \<Rightarrow> ([], Some err)
           | Inr rows \<Rightarrow> task_generator_yaml (env_rglob e) rows)
      | Some fl \<Rightarrow>
          (case load_filelist e fl of
             Inl err \<Rightarrow> ([], Some err)
           | Inr rows \<Rightarrow> (task_generator_filelist rows, None)))"

text \<open>
  Lines 147 to 149 for a pool that completes the tasks in the order they are yielded
  (other completion orders permute the frames): the bytes written to the output file so
  far, and the exception of the first task that raises.
\<close>

fun write_results :: "env \<Rightarrow> task list \<Rightarrow> nat list \<Rightarrow> nat list \<times> error option" where
  "write_results e [] out = (out, None)"
| "write_results e (t # ts) out =
     (case run_task e t of
        Inl err \<Rightarrow> (out, Some err)
      | Inr frame \<Rightarrow> write_results e ts (out @ frame))"

definition main :: "env \<Rightarrow> cli \<Rightarrow> nat list \<times> error option" where
  "main e args =
     (case write_results e (fst (generator_fn e args)) [] of
        (out, Some err) \<Rightarrow> (out, Some err)
      | (out, None) \<Rightarrow> (out, snd (generator_fn e args)))"

text \<open>
  The module level, lines 1 to 19. \<open>module_names\<close> are the names the import statements
  bind; an assignment to \<open>os.environ[k]\<close> looks the name \<open>os\<close> up and raises \<open>NameError\<close>
  when it is not bound.
\<close>

definition module_names :: "string list" where
  "module_names = [''re'', ''defaultdict'', ''Pool'', ''Path'', ''click'', ''np'', ''yaml'', ''logger'',
     ''tqdm'', ''Semantics'', ''Sentence'', ''TextData'', ''pack_pb_stream'', ''g2p'', ''load_filelist'']"

definition set_environ :: "string list \<Rightarrow> string \<Rightarrow> string \<Rightarrow> (string \<rightharpoonup> string) \<Rightarrow> error + (string \<rightharpoonup> string)" where
  "set_environ names k v environ =
     (if ''os'' \<in> set names then Inr (environ(k \<mapsto> v)) else Inl (NameError ''os''))"

definition module_startup :: "(string \<rightharpoonup> string) \<Rightarrow> error + (string \<rightharpoonup> string)" where
  "module_startup environ =
     (case set_environ module_names ''MKL_NUM_THREADS'' ''1'' environ of
        Inl err \<Rightarrow> Inl err
      | Inr environ' \<Rightarrow> set_environ module_names ''OMP_NUM_THREADS'' ''1'' environ')"

section \<open>A sample environment\<close>

text \<open>
  A file system, a phonemizer and an array loader for the examples: every file exists but
  \<open>wavs/missing.npy\<close>; reading \<open>wavs/bad.lab\<close> fails to decode; \<open>wavs/scalar.npy\<close> holds an
  array of dimension 0, every other feature file two rows; the manifest has two lines.
\<close>

definition sample_env :: env where
  "sample_env =
     \<lparr>file_exists = (\<lambda>p. p \<noteq> [''wavs'', ''missing.npy'']),
      read_text = (\<lambda>p. if p = [''wavs'', ''bad.lab''] then Inl (OtherError ''UnicodeDecodeError'')
                        else Inr '' Hello {noise} world ''),
      g2p = (\<lambda>t l. Inr [(''en'', t)]),
      np_load = (\<lambda>p. if p = [''wavs'', ''scalar.npy''] then Inr (NdArray (PyInt 7))
                      else Inr (NdArray (PyList [PyList [PyInt 1, PyInt 2], PyList [PyInt 3, PyInt 4]]))),
      serialize_to_string = (\<lambda>d. map (\<lambda>s. length (sentence_text s)) (td_sentences d)),
      env_rglob = (\<lambda>r. []),
      yaml_load = (\<lambda>c. Inr []),
      load_filelist = (\<lambda>f. Inr [([''wavs'', ''a.wav''], ''speaker1'', [''zh'', ''en''], ''Hello {noise} world''),
                                  ([''wavs'', ''b.wav''], ''speaker2'', [''en''], ''Good day'')])\<rparr>"


section \<open>Lemmas on the text cleaning\<close>
















section \<open>Lemmas on tree mode\<close>

lemma py_index_beyond: "int (length xs) < l \<Longrightarrow> py_index xs (l - 1) = Inl IndexError"
  by (simp add: py_index_def)

lemma py_index_error: "py_index xs i = Inl e \<Longrightarrow> e = IndexError"
  by (auto simp: py_index_def split: if_splits)

lemma py_index_within: "1 \<le> l \<Longrightarrow> l \<le> int (length xs) \<Longrightarrow> py_index xs (l - 1) = Inr (xs ! nat (l - 1))"
  by (simp add: py_index_def)

lemma select_parents_error: "select_parents levels ap = Inl e \<Longrightarrow> e = IndexError"
  by (induction levels arbitrary: e) (auto split: sum.splits dest: py_index_error)

lemma select_parents_beyond:
  "l \<in> set levels \<Longrightarrow> int (length ap) < l \<Longrightarrow> select_parents levels ap = Inl IndexError"
proof (induction levels)
  case Nil
  then show ?case by simp
next
  case (Cons a levels)
  show ?case
  proof (cases "py_index ap (a - 1)")
    case (Inl e)
    then show ?thesis using py_index_error[OF Inl] by simp
  next
    case (Inr x)
    then have "a \<noteq> l" using Cons.prems(2) py_index_beyond[of ap a] by auto
    then have "select_parents levels ap = Inl IndexError" using Cons by simp
    then show ?thesis using Inr by simp
  qed
qed

lemma select_parents_within:
  "\<forall>l\<in>set levels. 1 \<le> l \<and> l \<le> int (length ap) \<Longrightarrow>
   select_parents levels ap = Inr (map (\<lambda>l. ap ! nat (l - 1)) levels)"
  by (induction levels) (simp_all add: py_index_within)

lemma group_key_error: "group_key levels f = Inl e \<Longrightarrow> e = IndexError"
  by (auto simp: group_key_def split: sum.splits dest: select_parents_error)

lemma group_key_beyond:
  "l \<in> set levels \<Longrightarrow> int (length (all_parents f)) < l \<Longrightarrow> group_key levels f = Inl IndexError"
  by (simp add: group_key_def select_parents_beyond)

lemma group_files_error: "group_files levels files g = Inl e \<Longrightarrow> e = IndexError"
  by (induction files arbitrary: g) (auto split: sum.splits dest: group_key_error)

lemma group_files_beyond:
  "f \<in> set files \<Longrightarrow> group_key levels f = Inl IndexError \<Longrightarrow>
   group_files levels files g = Inl IndexError"
proof (induction files arbitrary: g)
  case Nil
  then show ?case by simp
next
  case (Cons a files)
  show ?case
  proof (cases "group_key levels a")
    case (Inl e)
    then show ?thesis using group_key_error[OF Inl] by simp
  next
    case (Inr k)
    then have "f \<in> set files" using Cons.prems by auto
    then show ?thesis using Cons Inr by simp
  qed
qed

lemma dataset_tasks_beyond:
  assumes "f \<in> set (rglob (ds_root row))" and "l \<in> set (levels_of (group_parent_level row))"
    and "int (length (all_parents f)) < l"
  shows "dataset_tasks rglob row = Inl IndexError"
proof -
  have "f \<in> set (sort (rglob (ds_root row)))" using assms(1) by simp
  then have "group_files (levels_of (group_parent_level row)) (sort (rglob (ds_root row))) [] = Inl IndexError"
    using group_key_beyond[OF assms(2,3)] by (rule group_files_beyond)
  then show ?thesis by (simp add: dataset_tasks_def)
qed

lemma task_generator_yaml_append:
  "task_generator_yaml rglob (before @ rows) =
     (if snd (task_generator_yaml rglob before) = None
      then (fst (task_generator_yaml rglob before) @ fst (task_generator_yaml rglob rows),
            snd (task_generator_yaml rglob rows))
      else task_generator_yaml rglob before)"
  by (induction before) (auto split: sum.splits)

lemma sort_mset_cong: "mset xs = mset ys \<Longrightarrow> sort xs = sort (ys :: 'a :: linorder list)"
  by (metis properties_for_sort sorted_sort mset_sort)

lemma dataset_tasks_cong:
  "mset (rglob1 (ds_root row)) = mset (rglob2 (ds_root row)) \<Longrightarrow>
   dataset_tasks rglob1 row = dataset_tasks rglob2 row"
  by (simp add: dataset_tasks_def sort_mset_cong[of "rglob1 (ds_root row)" "rglob2 (ds_root row)"])

lemma task_generator_yaml_cong:
  "\<forall>row\<in>set rows. dataset_tasks rglob1 row = dataset_tasks rglob2 row \<Longrightarrow>
   task_generator_yaml rglob1 rows = task_generator_yaml rglob2 rows"
  by (induction rows) (auto split: sum.splits)

lemma map_of_grouped_append:
  "map_of (grouped_append g k v) = (map_of g)(k \<mapsto> lookup_group g k @ [v])"
  by (induction g k v rule: grouped_append.induct) (auto simp: lookup_group_def fun_eq_iff)

lemma keys_grouped_append: "fst ` set (grouped_append g k v) = insert k (fst ` set g)"
  by (induction g k v rule: grouped_append.induct) auto

lemma distinct_grouped_append:
  "distinct (map fst g) \<Longrightarrow> distinct (map fst (grouped_append g k v))"
  by (induction g k v rule: grouped_append.induct) (auto simp: keys_grouped_append)

lemma lookup_grouped_append:
  "lookup_group (grouped_append g k v) k' = (if k' = k then lookup_group g k @ [v] else lookup_group g k')"
  by (simp add: lookup_group_def map_of_grouped_append)

lemma group_files_contents:
  "group_files levels files g = Inr g' \<Longrightarrow> distinct (map fst g) \<Longrightarrow>
   distinct (map fst g') \<and>
   (\<forall>k. lookup_group g' k = lookup_group g k @ filter (\<lambda>f. group_key levels f = Inr k) files)"
proof (induction files arbitrary: g)
  case Nil
  then show ?case by simp
next
  case (Cons a files)
  from Cons.prems(1) obtain p where p: "group_key levels a = Inr p"
    and rest: "group_files levels files (grouped_append g p a) = Inr g'"
    by (auto split: sum.splits)
  have "distinct (map fst (grouped_append g p a))"
    using Cons.prems(2) by (rule distinct_grouped_append)
  from Cons.IH[OF rest this] show ?case
    using p by (auto simp: lookup_grouped_append)
qed

lemma lookup_group_member:
  "distinct (map fst g) \<Longrightarrow> (k, vs) \<in> set g \<Longrightarrow> lookup_group g k = vs"
  by (simp add: lookup_group_def)


lemma ancestors_stop:
  "path_name (path_parent p) = [] \<Longrightarrow> [] \<notin> set p \<Longrightarrow> ancestors p = []"
proof (cases p rule: rev_cases)
  case Nil
  then show ?thesis by (simp add: ancestors_def anchored_def)
next
  case (snoc q x)
  assume a: "path_name (path_parent p) = []" and b: "[] \<notin> set p"
  show ?thesis
  proof (cases q)
    case Nil
    then show ?thesis using snoc by (simp add: ancestors_def anchored_def)
  next
    case (Cons y ys)
    then have "path_parent p = q" using snoc by (simp add: path_parent_def)
    moreover have "last q \<in> set p" using snoc Cons by simp
    then have "last q \<noteq> []" using b by metis
    ultimately have "length q = (if anchored q then 1 else 0)"
      using a by (auto simp: path_name_def split: if_splits)
    then have "q = [''/'']" using Cons by (auto simp: anchored_def split: if_splits)
    then show ?thesis using snoc by (simp add: ancestors_def anchored_def)
  qed
qed

lemma ancestors_step:
  "path_name (path_parent p) \<noteq> [] \<Longrightarrow>
   ancestors p = path_name (path_parent p) # ancestors (path_parent p)"
proof (cases p rule: rev_cases)
  case Nil
  assume "path_name (path_parent p) \<noteq> []"
  then show ?thesis using Nil by (simp add: path_name_def path_parent_def anchored_def)
next
  case (snoc q x)
  assume a: "path_name (path_parent p) \<noteq> []"
  show ?thesis
  proof (cases q rule: rev_cases)
    case Nil
    then show ?thesis using snoc a
      by (auto simp: path_name_def path_parent_def anchored_def split: if_splits)
  next
    case (snoc r y)
    note q = this
    have pp: "path_parent p = q"
      using \<open>p = q @ [x]\<close> q by (simp add: path_parent_def butlast_append)
    have nm: "path_name q = y" and nr: "\<not> (anchored q \<and> length q = 1)"
      using a pp q by (auto simp: path_name_def split: if_splits)
    show ?thesis
    proof (cases "anchored q")
      case False
      then have "\<not> anchored p" using \<open>p = q @ [x]\<close> q by (cases r) (auto simp: anchored_def)
      then show ?thesis
        using False pp nm \<open>p = q @ [x]\<close> q by (simp add: ancestors_def butlast_append)
    next
      case True
      then have ap: "anchored p" using \<open>p = q @ [x]\<close> q by (cases r) (auto simp: anchored_def)
      obtain z r' where r: "r = z # r'" using True nr q by (cases r) auto
      show ?thesis
        using True ap pp nm \<open>p = q @ [x]\<close> q r by (simp add: ancestors_def butlast_append)
    qed
  qed
qed

lemma path_parent_no_empty: "[] \<notin> set p \<Longrightarrow> [] \<notin> set (path_parent p)"
  by (auto simp: path_parent_def dest: in_set_butlastD)

lemma all_parents_loop_ancestors:
  "[] \<notin> set p \<Longrightarrow> all_parents_loop p acc = acc @ ancestors p"
proof (induction p acc rule: all_parents_loop.induct)
  case (1 pointer acc)
  show ?case
  proof (cases "path_name (path_parent pointer) \<noteq> []")
    case True
    have "all_parents_loop pointer acc =
        all_parents_loop (path_parent pointer) (acc @ [path_name (path_parent pointer)])"
      using True by (subst all_parents_loop.simps) simp
    also have "\<dots> = (acc @ [path_name (path_parent pointer)]) @ ancestors (path_parent pointer)"
      using "1.IH"[OF True] "1.prems" by (simp add: path_parent_no_empty)
    finally show ?thesis using ancestors_step[OF True] by simp
  next
    case False
    then have "all_parents_loop pointer acc = acc"
      by (subst all_parents_loop.simps) simp
    then show ?thesis using ancestors_stop[of pointer] False "1.prems" by simp
  qed
qed

lemma all_parents_ancestors: "[] \<notin> set p \<Longrightarrow> all_parents p = ancestors p"
  by (simp add: all_parents_def all_parents_loop_ancestors)

lemma group_key_within:
  "\<forall>l\<in>set levels. 1 \<le> l \<and> l \<le> int (length (all_parents file)) \<Longrightarrow>
   group_key levels file = Inr (str_join ''-'' (map (\<lambda>l. all_parents file ! nat (l - 1)) levels))"
  by (simp add: group_key_def select_parents_within)

lemma dataset_tasks_contents:
  assumes "dataset_tasks rglob row = Inr ts"
  shows "distinct (map task_name ts) \<and>
    (\<forall>t\<in>set ts. subset t =
       map TreeFile (filter (\<lambda>f. group_key (levels_of (group_parent_level row)) f = Inr (task_name t))
           (sort (rglob (ds_root row)))))"
proof -
  let ?lv = "levels_of (group_parent_level row)" and ?fs = "sort (rglob (ds_root row))"
  from assms(1) obtain g where g: "group_files ?lv ?fs [] = Inr g" and ts: "ts = map (mk_task row) g"
    by (auto simp: dataset_tasks_def split: sum.splits)
  have d: "distinct (map fst g)"
    and c: "\<And>k. lookup_group g k = filter (\<lambda>f. group_key ?lv f = Inr k) ?fs"
    using group_files_contents[OF g] by (simp_all add: lookup_group_def)
  have "map task_name ts = map fst g" by (simp add: ts mk_task_def)
  then have dist: "distinct (map task_name ts)" using d by simp
  have "subset t = map TreeFile (filter (\<lambda>f. group_key ?lv f = Inr (task_name t)) ?fs)"
    if "t \<in> set ts" for t
  proof -
    from that ts obtain e where e: "e \<in> set g" and t: "t = mk_task row e" by auto
    have "lookup_group g (fst e) = snd e"
      using lookup_group_member[OF d, of "fst e" "snd e"] e by simp
    then show ?thesis using c[of "fst e"] t by (simp add: mk_task_def)
  qed
  then show ?thesis using dist by blast
qed

section \<open>Lemmas on \<open>run_task\<close>\<close>

lemma run_members_ok:
  "\<forall>x\<in>set (map (\<lambda>(l, m). loop_body e ext l m) (zip (bindings L ms) ms)). \<not> isl x \<Longrightarrow>
   run_members e ext ms L S =
     Inr (last (L # bindings L ms), S @ added (map (\<lambda>(l, m). loop_body e ext l m) (zip (bindings L ms) ms)))"
proof (induction ms arbitrary: L S)
  case Nil
  then show ?case by (simp add: added_def)
next
  case (Cons m ms)
  let ?L = "rebind_languages L m"
  from Cons.prems have hd: "\<not> isl (loop_body e ext ?L m)"
    and tl: "\<forall>x\<in>set (map (\<lambda>(l, m). loop_body e ext l m) (zip (bindings ?L ms) ms)). \<not> isl x"
    by simp_all
  from hd obtain r where r: "loop_body e ext ?L m = Inr r" by (cases "loop_body e ext ?L m") auto
  show ?case
  proof (cases r)
    case None
    then show ?thesis using r Cons.IH[OF tl, of S] by (simp add: added_def)
  next
    case (Some s)
    then show ?thesis using r Cons.IH[OF tl, of "S @ [s]"] by (simp add: added_def)
  qed
qed

lemma run_members_raises:
  "isl (run_members e ext ms L S) \<longleftrightarrow>
   (\<exists>x\<in>set (map (\<lambda>(l, m). loop_body e ext l m) (zip (bindings L ms) ms)). isl x)"
proof (induction ms arbitrary: L S)
  case Nil
  show ?case by simp
next
  case (Cons m ms)
  show ?case
  proof (cases "loop_body e ext (rebind_languages L m) m")
    case (Inl err)
    then show ?thesis by simp
  next
    case (Inr r)
    then show ?thesis using Cons.IH by (cases r) simp_all
  qed
qed

lemma run_task_data_ok:
  assumes "\<forall>x\<in>set (outcomes e t). \<not> isl x"
  shows "run_task_data e t =
     Inr \<lparr>td_source = task_source t, td_name = task_name t,
          td_languages = last (task_languages t # bindings (task_languages t) (subset t)),
          td_sentences = added (outcomes e t)\<rparr>"
  using run_members_ok[of e "task_extension t" "task_languages t" "subset t" "[]"] assms
  by (simp add: run_task_data_def outcomes_def)

lemma run_task_data_raises: "isl (run_task_data e t) \<longleftrightarrow> (\<exists>x\<in>set (outcomes e t). isl x)"
proof -
  have "isl (run_task_data e t) = isl (run_members e (task_extension t) (subset t) (task_languages t) [])"
    by (simp add: run_task_data_def split: sum.splits prod.splits)
  then show ?thesis
    unfolding outcomes_def
    using run_members_raises[of e "task_extension t" "subset t" "task_languages t" "[]"] by simp
qed

lemma skip_missing_feature:
  "with_suffix (member_file m) ''.npy'' = Inr np \<Longrightarrow> \<not> file_exists e np \<Longrightarrow>
   loop_body e ext l m = Inr None"
  by (simp add: loop_body_def)

lemma skip_missing_sidecar:
  "with_suffix (member_file m) ''.npy'' = Inr np \<Longrightarrow> member_text m = None \<Longrightarrow>
   ext = Some x \<Longrightarrow> with_suffix (member_file m) x = Inr txt_file \<Longrightarrow> \<not> file_exists e txt_file \<Longrightarrow>
   loop_body e ext l m = Inr None"
  by (simp add: loop_body_def resolve_text_def)

lemma skip_g2p_error:
  "with_suffix (member_file m) ''.npy'' = Inr np \<Longrightarrow>
   resolve_text e ext (member_file m) (member_text m) = Inr (Some t) \<Longrightarrow>
   g2p e (sanitize t) l = Inl err \<Longrightarrow> loop_body e ext l m = Inr None"
  by (simp add: loop_body_def build_sentence_def)

lemma skip_np_load_error:
  "with_suffix (member_file m) ''.npy'' = Inr np \<Longrightarrow>
   resolve_text e ext (member_file m) (member_text m) = Inr (Some t) \<Longrightarrow>
   np_load e np = Inl err \<Longrightarrow> loop_body e ext l m = Inr None"
  by (simp add: loop_body_def build_sentence_def split: sum.splits)

lemma added_skip [simp]: "added (Inr None # os) = added os"
  by (simp add: added_def)

lemma added_sentence [simp]: "added (Inr (Some s) # os) = s # added os"
  by (simp add: added_def)

lemma added_Nil [simp]: "added [] = []"
  by (simp add: added_def)


lemma write_results_ok:
  "\<forall>t\<in>set ts. \<not> isl (run_task_data e t) \<Longrightarrow>
   write_results e ts out =
     (out @ concat (map (\<lambda>t. pack_pb_stream e (projr (run_task_data e t))) ts), None)"
proof (induction ts arbitrary: out)
  case Nil
  show ?case by simp
next
  case (Cons t ts)
  then obtain d where d: "run_task_data e t = Inr d" by (cases "run_task_data e t") auto
  show ?case using Cons d by (simp add: run_task_def)
qed




lemma bindings_tree:
  "\<forall>m\<in>set ms. member_text m = None \<Longrightarrow> last (L # bindings L ms) = L"
proof (induction ms)
  case Nil
  show ?case by simp
next
  case (Cons m ms)
  then show ?case by (cases m) auto
qed

lemma run_task_data_tree_languages:
  "\<forall>m\<in>set (subset tk). member_text m = None \<Longrightarrow> run_task_data e tk = Inr d \<Longrightarrow>
   td_languages d = task_languages tk"
proof -
  assume tree: "\<forall>m\<in>set (subset tk). member_text m = None" and d: "run_task_data e tk = Inr d"
  have "\<not> isl (run_task_data e tk)" using d by simp
  then have "\<forall>x\<in>set (outcomes e tk). \<not> isl x" using run_task_data_raises[of e tk] by blast
  then show ?thesis using run_task_data_ok[of e tk] d bindings_tree[OF tree] by simp
qed

section \<open>The claims\<close>







text \<open>
  C3 (as amended). In tree mode, if a configured ancestor index exceeds the number of
  ancestor directories of some file of a dataset, the generator raises \<open>IndexError\<close>
  before any group of that dataset is yielded. The groups of the datasets listed before
  it in the configuration have been yielded by then: the failure is per dataset, not
  for the whole configuration.
\<close>

theorem tree_fail_per_dataset:
  assumes "f \<in> set (rglob (ds_root row))" and "l \<in> set (levels_of (group_parent_level row))"
    and "int (length (all_parents f)) < l"
    and "snd (task_generator_yaml rglob before) = None"
  shows "task_generator_yaml rglob (before @ row # after) =
           (fst (task_generator_yaml rglob before), Some IndexError) \<and>
         task_generator_yaml rglob (row # after) = ([], Some IndexError)"
  using dataset_tasks_beyond[of f rglob row l] assms
  by (simp add: task_generator_yaml_append)

theorem tree_fail_per_dataset_witness:
  "task_generator_yaml (\<lambda>r. [[''e'', ''z.npy'']])
     [\<lparr>ds_root = ''e'', ds_source = ''s'', ds_languages = [''en''], ds_extension = Some ''.lab'',
        group_parent_level = LevelList [1, 2]\<rparr>] = ([], Some IndexError)"
  using tree_fail_per_dataset[of "[''e'', ''z.npy'']" "\<lambda>r. [[''e'', ''z.npy'']]"
     "\<lparr>ds_root = ''e'', ds_source = ''s'', ds_languages = [''en''], ds_extension = Some ''.lab'',
        group_parent_level = LevelList [1, 2]\<rparr>" 2 "[]" "[]"]
  by (simp add: levels_of_def all_parents_ancestors ancestors_def anchored_def)

text \<open>
  C3 as stated fails: with two datasets, the second of which asks for the second ancestor
  of \<open>e/z.npy\<close> (which has one), the groups \<open>a\<close> and \<open>b\<close> of the first dataset are
  yielded before the \<open>IndexError\<close>.
\<close>

theorem tree_fail_fast_counterexample:
  "task_generator_yaml
     (\<lambda>r. if r = ''d'' then [[''d'', ''b'', ''x.npy''], [''d'', ''a'', ''y.npy'']] else [[''e'', ''z.npy'']])
     [\<lparr>ds_root = ''d'', ds_source = ''s'', ds_languages = [''en''], ds_extension = Some ''.lab'',
        group_parent_level = LevelInt 1\<rparr>,
      \<lparr>ds_root = ''e'', ds_source = ''s'', ds_languages = [''en''], ds_extension = Some ''.lab'',
        group_parent_level = LevelList [2]\<rparr>] =
   ([\<lparr>task_name = ''a'', subset = [TreeFile [''d'', ''a'', ''y.npy'']], task_source = ''s'',
       task_languages = [''en''], task_extension = Some ''.lab''\<rparr>,
     \<lparr>task_name = ''b'', subset = [TreeFile [''d'', ''b'', ''x.npy'']], task_source = ''s'',
       task_languages = [''en''], task_extension = Some ''.lab''\<rparr>], Some IndexError)"
  by (simp add: dataset_tasks_def levels_of_def group_key_def all_parents_ancestors ancestors_def
      anchored_def py_index_def mk_task_def)

text \<open>
  C7. Tree-mode group discovery is deterministic. Two runs over the same files, in
  whatever order the file system enumerates them, yield the same tasks (the same keys,
  the same member lists, the same order), because the file list is sorted first. The
  keys of a dataset's groups are distinct, and the members of a group are exactly the
  files with its key, in sorted order. For levels between 1 and the number of ancestors
  the key is the ancestor names at these 1-based positions joined with \<open>-\<close> in the
  configured order, and the ancestor names are the directory parts of the path, nearest
  first.
\<close>

theorem tree_grouping_deterministic:
  "((\<forall>r. mset (rglob1 r) = mset (rglob2 r)) \<longrightarrow>
      task_generator_yaml rglob1 rows = task_generator_yaml rglob2 rows) \<and>
   (dataset_tasks rglob row = Inr ts \<longrightarrow>
      distinct (map task_name ts) \<and>
      (\<forall>t\<in>set ts. subset t =
         map TreeFile (filter (\<lambda>f. group_key (levels_of (group_parent_level row)) f = Inr (task_name t))
           (sort (rglob (ds_root row)))))) \<and>
   ((\<forall>l\<in>set levels. 1 \<le> l \<and> l \<le> int (length (all_parents pth))) \<longrightarrow>
      group_key levels pth =
        Inr (str_join ''-'' (map (\<lambda>l. all_parents pth ! nat (l - 1)) levels))) \<and>
   ([] \<notin> set pth \<longrightarrow> all_parents pth = rev (butlast (if anchored pth then tl pth else pth)))"
proof -
  have a: "(\<forall>r. mset (rglob1 r) = mset (rglob2 r)) \<longrightarrow>
      task_generator_yaml rglob1 rows = task_generator_yaml rglob2 rows"
    by (auto intro!: task_generator_yaml_cong dataset_tasks_cong)
  have b: "dataset_tasks rglob row = Inr ts \<longrightarrow>
      distinct (map task_name ts) \<and>
      (\<forall>t\<in>set ts. subset t =
         map TreeFile (filter (\<lambda>f. group_key (levels_of (group_parent_level row)) f = Inr (task_name t))
           (sort (rglob (ds_root row)))))"
    using dataset_tasks_contents[of rglob row ts] by blast
  have c: "[] \<notin> set pth \<longrightarrow> all_parents pth = rev (butlast (if anchored pth then tl pth else pth))"
    using all_parents_ancestors[of pth] by (simp add: ancestors_def)
  show ?thesis using a b c group_key_within[of levels pth] by blast
qed

theorem tree_grouping_deterministic_witness:
  "task_generator_yaml (\<lambda>r. [[''d'', ''b'', ''x.npy''], [''d'', ''a'', ''y.npy''], [''d'', ''b'', ''a.npy'']])
     [\<lparr>ds_root = ''d'', ds_source = ''s'', ds_languages = [''en''], ds_extension = Some ''.lab'',
        group_parent_level = LevelList [1, 2]\<rparr>] =
   task_generator_yaml (\<lambda>r. [[''d'', ''b'', ''a.npy''], [''d'', ''b'', ''x.npy''], [''d'', ''a'', ''y.npy'']])
     [\<lparr>ds_root = ''d'', ds_source = ''s'', ds_languages = [''en''], ds_extension = Some ''.lab'',
        group_parent_level = LevelList [1, 2]\<rparr>] \<and>
   group_key [1, 2] [''d'', ''b'', ''x.npy''] = Inr ''b-d'' \<and>
   all_parents [''/'', ''d'', ''b'', ''x.npy''] = [''b'', ''d'']"
  using tree_grouping_deterministic[of
     "\<lambda>r. [[''d'', ''b'', ''x.npy''], [''d'', ''a'', ''y.npy''], [''d'', ''b'', ''a.npy'']]"
     "\<lambda>r. [[''d'', ''b'', ''a.npy''], [''d'', ''b'', ''x.npy''], [''d'', ''a'', ''y.npy'']]"
     "[\<lparr>ds_root = ''d'', ds_source = ''s'', ds_languages = [''en''], ds_extension = Some ''.lab'',
        group_parent_level = LevelList [1, 2]\<rparr>]"
     "\<lambda>r. []" "\<lparr>ds_root = ''d'', ds_source = ''s'', ds_languages = [''en''], ds_extension = Some ''.lab'',
        group_parent_level = LevelList [1, 2]\<rparr>" "[]"
     "[1, 2]" "[''d'', ''b'', ''x.npy'']"]
  by (simp add: group_key_def all_parents_ancestors ancestors_def anchored_def py_index_def)

text \<open>
  C9. A dataset whose \<open>group_parent_level\<close> is the integer \<open>n\<close> yields the same tasks as
  the dataset with the list \<open>[n]\<close>, alone and anywhere in a configuration, and the key of
  a file is then the name of its \<open>n\<close>-th ancestor itself, nothing joined to it.
\<close>

theorem single_level_as_list:
  "dataset_tasks rglob (row\<lparr>group_parent_level := LevelInt n\<rparr>) =
     dataset_tasks rglob (row\<lparr>group_parent_level := LevelList [n]\<rparr>) \<and>
   task_generator_yaml rglob (before @ row\<lparr>group_parent_level := LevelInt n\<rparr> # after) =
     task_generator_yaml rglob (before @ row\<lparr>group_parent_level := LevelList [n]\<rparr> # after) \<and>
   group_key (levels_of (LevelInt n)) pth = py_index (all_parents pth) (n - 1)"
proof -
  have a: "dataset_tasks rglob (row\<lparr>group_parent_level := LevelInt n\<rparr>) =
     dataset_tasks rglob (row\<lparr>group_parent_level := LevelList [n]\<rparr>)"
    by (simp add: dataset_tasks_def levels_of_def mk_task_def split: sum.splits)
  have b: "group_key (levels_of (LevelInt n)) pth = py_index (all_parents pth) (n - 1)"
    by (simp add: group_key_def levels_of_def split: sum.splits)
  show ?thesis using a b by (simp add: task_generator_yaml_append)
qed

theorem single_level_as_list_witness:
  "task_generator_yaml (\<lambda>r. [[''d'', ''b-1'', ''x.npy'']])
     [\<lparr>ds_root = ''d'', ds_source = ''s'', ds_languages = [''en''], ds_extension = Some ''.lab'',
        group_parent_level = LevelInt 1\<rparr>] =
   ([\<lparr>task_name = ''b-1'', subset = [TreeFile [''d'', ''b-1'', ''x.npy'']], task_source = ''s'',
       task_languages = [''en''], task_extension = Some ''.lab''\<rparr>], None) \<and>
   group_key (levels_of (LevelInt 1)) [''d'', ''b-1'', ''x.npy''] = Inr ''b-1''"
  using single_level_as_list[where rglob = "\<lambda>r. [[''d'', ''b-1'', ''x.npy'']]"
     and row = "\<lparr>ds_root = ''d'', ds_source = ''s'', ds_languages = [''en''], ds_extension = Some ''.lab'',
        group_parent_level = LevelInt 1\<rparr>" and n = 1 and before = "[]" and after = "[]"
     and pth = "[''d'', ''b-1'', ''x.npy'']"]
  by (simp add: dataset_tasks_def levels_of_def group_key_def all_parents_ancestors ancestors_def
      anchored_def py_index_def mk_task_def)

text \<open>
  C1 (as amended). In \<open>run_task\<close> a member whose feature file is missing, whose sidecar
  text file is missing, or for which the phonemizer or \<open>np.load\<close> raises is skipped by
  the loop body. If no member raises outside these handled cases, the group yields
  exactly one record: its sentences are those of the members not skipped, in member
  order. \<open>run_task\<close> raises exactly when the loop body raises for some member. A group of
  a member with a missing feature file and a valid member yields a record with exactly
  one sentence.
\<close>

theorem run_task_skips_failed_members:
  "(with_suffix (member_file m) ''.npy'' = Inr np \<and> \<not> file_exists e np \<longrightarrow>
      loop_body e ext l m = Inr None) \<and>
   (with_suffix (member_file m) ''.npy'' = Inr np \<and> member_text m = None \<and> ext = Some x \<and>
    with_suffix (member_file m) x = Inr txt_file \<and> \<not> file_exists e txt_file \<longrightarrow>
      loop_body e ext l m = Inr None) \<and>
   (with_suffix (member_file m) ''.npy'' = Inr np \<and>
    resolve_text e ext (member_file m) (member_text m) = Inr (Some tx) \<and>
    (isl (g2p e (sanitize tx) l) \<or> isl (np_load e np)) \<longrightarrow>
      loop_body e ext l m = Inr None) \<and>
   ((\<forall>x\<in>set (outcomes e tk). \<not> isl x) \<longrightarrow>
      run_task_data e tk =
        Inr \<lparr>td_source = task_source tk, td_name = task_name tk,
             td_languages = last (task_languages tk # bindings (task_languages tk) (subset tk)),
             td_sentences = added (outcomes e tk)\<rparr>) \<and>
   (isl (run_task_data e tk) \<longleftrightarrow> (\<exists>x\<in>set (outcomes e tk). isl x)) \<and>
   (subset tk = [ma, mb] \<and> with_suffix (member_file ma) ''.npy'' = Inr npa \<and> \<not> file_exists e npa \<and>
    loop_body e (task_extension tk)
      (rebind_languages (rebind_languages (task_languages tk) ma) mb) mb = Inr (Some s) \<longrightarrow>
      (\<exists>d. run_task_data e tk = Inr d \<and> td_sentences d = [s]))"
proof -
  have a: "with_suffix (member_file m) ''.npy'' = Inr np \<and> \<not> file_exists e np \<longrightarrow>
      loop_body e ext l m = Inr None"
    by (simp add: skip_missing_feature)
  have b: "with_suffix (member_file m) ''.npy'' = Inr np \<and> member_text m = None \<and> ext = Some x \<and>
    with_suffix (member_file m) x = Inr txt_file \<and> \<not> file_exists e txt_file \<longrightarrow>
      loop_body e ext l m = Inr None"
    using skip_missing_sidecar[of m np ext x txt_file e l] by blast
  have c: "with_suffix (member_file m) ''.npy'' = Inr np \<and>
    resolve_text e ext (member_file m) (member_text m) = Inr (Some tx) \<and>
    (isl (g2p e (sanitize tx) l) \<or> isl (np_load e np)) \<longrightarrow>
      loop_body e ext l m = Inr None"
    using skip_g2p_error[of m np e ext tx l] skip_np_load_error[of m np e ext tx _ l]
    by (auto simp: isl_def)
  have d: "(\<forall>x\<in>set (outcomes e tk). \<not> isl x) \<longrightarrow>
      run_task_data e tk =
        Inr \<lparr>td_source = task_source tk, td_name = task_name tk,
             td_languages = last (task_languages tk # bindings (task_languages tk) (subset tk)),
             td_sentences = added (outcomes e tk)\<rparr>"
    using run_task_data_ok[of e tk] by blast
  have f: "subset tk = [ma, mb] \<and> with_suffix (member_file ma) ''.npy'' = Inr npa \<and> \<not> file_exists e npa \<and>
    loop_body e (task_extension tk)
      (rebind_languages (rebind_languages (task_languages tk) ma) mb) mb = Inr (Some s) \<longrightarrow>
      (\<exists>d. run_task_data e tk = Inr d \<and> td_sentences d = [s])"
  proof (intro impI, elim conjE)
    assume s: "subset tk = [ma, mb]" and n: "with_suffix (member_file ma) ''.npy'' = Inr npa"
      and x: "\<not> file_exists e npa"
      and v: "loop_body e (task_extension tk)
        (rebind_languages (rebind_languages (task_languages tk) ma) mb) mb = Inr (Some s)"
    have o: "outcomes e tk = [Inr None, Inr (Some s)]"
      using s v skip_missing_feature[OF n x] by (simp add: outcomes_def)
    then show "\<exists>d. run_task_data e tk = Inr d \<and> td_sentences d = [s]"
      using run_task_data_ok[of e tk] by simp
  qed
  show ?thesis using a b c d f run_task_data_raises[of e tk] by blast
qed

theorem run_task_skips_failed_members_witness:
  "run_task_data sample_env
     \<lparr>task_name = ''speaker1'', subset = [TreeFile [''wavs'', ''missing.npy''], TreeFile [''wavs'', ''ok.npy'']],
      task_source = ''demo'', task_languages = [''en''], task_extension = Some ''.lab''\<rparr> =
   Inr \<lparr>td_source = ''demo'', td_name = ''speaker1'', td_languages = [''en''],
        td_sentences = [\<lparr>sentence_text = ''Hello world'', phones = [''Hello world''],
                          semantics = [[1, 2], [3, 4]]\<rparr>]\<rparr>"
  using run_task_skips_failed_members[where e = sample_env and m = "TreeFile [''wavs'', ''missing.npy'']"
      and np = "[''wavs'', ''missing.npy'']" and ext = "Some ''.lab''" and l = "[''en'']"
      and x = "''.lab''" and txt_file = "[''wavs'', ''missing.lab'']" and tx = "''Hello''"
      and ma = "TreeFile [''wavs'', ''missing.npy'']" and mb = "TreeFile [''wavs'', ''ok.npy'']"
      and npa = "[''wavs'', ''missing.npy'']"
      and s = "\<lparr>sentence_text = ''Hello world'', phones = [''Hello world''], semantics = [[1, 2], [3, 4]]\<rparr>"
      and tk = "\<lparr>task_name = ''speaker1'', subset = [TreeFile [''wavs'', ''missing.npy''], TreeFile [''wavs'', ''ok.npy'']],
      task_source = ''demo'', task_languages = [''en''], task_extension = Some ''.lab''\<rparr>"]
  by (simp add: sample_env_def run_task_data_def loop_body_def resolve_text_def
      build_sentence_def semantics_of_def mk_Semantics_def with_suffix_def name_suffix_def
      path_name_def anchored_def sanitize_def remove_spans_def is_space_def newline_def strip_def
      outcomes_def)

text \<open>
  C1 as stated fails: reading a sidecar file (lines 95 and 96) is outside the \<open>try\<close>. For
  a member whose feature file and sidecar file exist and whose sidecar file cannot be
  decoded, the exception leaves \<open>run_task\<close>, and the group yields no record although its
  second member is valid.
\<close>

theorem run_task_escape_counterexample:
  "file_exists sample_env [''wavs'', ''bad.npy''] \<and> file_exists sample_env [''wavs'', ''bad.lab''] \<and>
   read_text sample_env [''wavs'', ''bad.lab''] = Inl (OtherError ''UnicodeDecodeError'') \<and>
   run_task sample_env
     \<lparr>task_name = ''speaker1'', subset = [TreeFile [''wavs'', ''bad.npy''], TreeFile [''wavs'', ''ok.npy'']],
      task_source = ''demo'', task_languages = [''en''], task_extension = Some ''.lab''\<rparr> =
   Inl (OtherError ''UnicodeDecodeError'')"
  by (simp add: sample_env_def run_task_data_def loop_body_def resolve_text_def
      build_sentence_def semantics_of_def mk_Semantics_def with_suffix_def name_suffix_def
      path_name_def anchored_def sanitize_def remove_spans_def is_space_def newline_def strip_def
      run_task_def)

text \<open>
  C4. In manifest mode the record does not carry the language tags of the yielded tuple.
  For a manifest of two lines, \<open>speaker1\<close> with the tags \<open>zh, en\<close> and then \<open>speaker2\<close>
  with \<open>en\<close>, both yielded tuples carry \<open>en\<close> (the tags of the last line), and the
  record of \<open>speaker1\<close> carries \<open>zh, en\<close> (the tags of its last member, bound by line 79).
\<close>

theorem manifest_languages_differ:
  "map task_languages
     (task_generator_filelist
        [([''wavs'', ''a.wav''], ''speaker1'', [''zh'', ''en''], ''Hello {noise} world''),
         ([''wavs'', ''b.wav''], ''speaker2'', [''en''], ''Good day'')]) = [[''en''], [''en'']] \<and>
   map (\<lambda>tk. map_sum id td_languages (run_task_data sample_env tk))
     (task_generator_filelist
        [([''wavs'', ''a.wav''], ''speaker1'', [''zh'', ''en''], ''Hello {noise} world''),
         ([''wavs'', ''b.wav''], ''speaker2'', [''en''], ''Good day'')]) = [Inr [''zh'', ''en''], Inr [''en'']]"
  by (simp add: sample_env_def run_task_data_def loop_body_def resolve_text_def
      build_sentence_def semantics_of_def mk_Semantics_def with_suffix_def name_suffix_def
      path_name_def anchored_def sanitize_def remove_spans_def is_space_def newline_def strip_def
      task_generator_filelist_def last_languages_def)

text \<open>
  C5. The module-level assignments of lines 18 and 19 use the name \<open>os\<close>, which no import
  statement binds: the first one raises \<open>NameError\<close>, whatever the environment holds.
\<close>

theorem module_startup_raises: "module_startup environ = Inl (NameError ''os'')"
  by (simp add: module_startup_def set_environ_def module_names_def)




text \<open>
  C8 (as amended). Exactly one source is used for every invocation: the manifest when
  \<open>--filelist\<close> is given, whatever \<open>--config\<close> is (the output of \<open>main\<close> does not depend
  on it), and otherwise the configuration, at its default path when \<open>--config\<close> is left
  out.
\<close>

theorem filelist_overrides_config:
  "(opt_filelist args = Some fl \<longrightarrow>
      generator_fn e args =
        (case load_filelist e fl of
           Inl err \<Rightarrow> ([], Some err)
         | Inr rows \<Rightarrow> (task_generator_filelist rows, None)) \<and>
      generator_fn e (args\<lparr>opt_config := c\<rparr>) = generator_fn e args \<and>
      main e (args\<lparr>opt_config := c\<rparr>) = main e args) \<and>
   (opt_filelist args = None \<longrightarrow>
      generator_fn e args =
        (case yaml_load e (case opt_config args of None \<Rightarrow> default_config | Some c \<Rightarrow> c) of
           Inl err \<Rightarrow> ([], Some err)
         | Inr rows \<Rightarrow> task_generator_yaml (env_rglob e) rows))"
  by (auto simp: generator_fn_def main_def)

theorem filelist_overrides_config_witness:
  "main sample_env \<lparr>opt_config = Some ''other.yaml'', opt_output = None, opt_filelist = Some ''train.list'',
      opt_num_workers = None\<rparr> =
   main sample_env \<lparr>opt_config = None, opt_output = None, opt_filelist = Some ''train.list'',
      opt_num_workers = None\<rparr> \<and>
   generator_fn sample_env \<lparr>opt_config = None, opt_output = None, opt_filelist = None,
      opt_num_workers = None\<rparr> = ([], None)"
  using filelist_overrides_config[where e = sample_env and fl = "''train.list''" and c = "Some ''other.yaml''"
      and args = "\<lparr>opt_config = None, opt_output = None, opt_filelist = Some ''train.list'',
      opt_num_workers = None\<rparr>"]
    filelist_overrides_config[where e = sample_env
      and args = "\<lparr>opt_config = None, opt_output = None, opt_filelist = None, opt_num_workers = None\<rparr>"]
  by (simp add: sample_env_def)

text \<open>
  C8 as stated fails: an invocation that gives both \<open>--config\<close> and \<open>--filelist\<close> is not
  rejected; the tasks are those of the manifest and \<open>main\<close> ends without an error.
\<close>

theorem both_sources_counterexample:
  "generator_fn sample_env \<lparr>opt_config = Some ''finetune.yaml'', opt_output = None,
      opt_filelist = Some ''train.list'', opt_num_workers = None\<rparr> =
   ([\<lparr>task_name = ''speaker1'',
       subset = [ManifestEntry [''wavs'', ''a.wav''] ''Hello {noise} world'' [''zh'', ''en'']],
       task_source = ''filelist'', task_languages = [''en''], task_extension = None\<rparr>,
     \<lparr>task_name = ''speaker2'', subset = [ManifestEntry [''wavs'', ''b.wav''] ''Good day'' [''en'']],
       task_source = ''filelist'', task_languages = [''en''], task_extension = None\<rparr>], None) \<and>
   snd (main sample_env \<lparr>opt_config = Some ''finetune.yaml'', opt_output = None,
      opt_filelist = Some ''train.list'', opt_num_workers = None\<rparr>) = None"
  by (simp add: sample_env_def run_task_data_def loop_body_def resolve_text_def
      build_sentence_def semantics_of_def mk_Semantics_def with_suffix_def name_suffix_def
      path_name_def anchored_def sanitize_def remove_spans_def is_space_def newline_def strip_def
      run_task_def pack_pb_stream_def le32_def generator_fn_def main_def
      task_generator_filelist_def last_languages_def)

end
